theory Spec2Isabelle
  imports Main "HOL-Library.Sublist"
begin

section \<open>Collecting Tcl/Tk data files: a model of \<^verbatim>\<open>PyInstaller/utils/hooks/tcl_tk.py\<close>\<close>

text \<open>
  The module locates the Tcl and Tk data directories of the host, checks them and
  returns the list of files to bundle. Everything it learns about the host comes from
  collaborators: an interpreter probe (\<^verbatim>\<open>hookutils.exec_statement\<close>), the
  binary dependency scanner (\<^verbatim>\<open>bindepend\<close>), \<^verbatim>\<open>os.path\<close>, the file system,
  \<^verbatim>\<open>macholib\<close> and the logger. The model gathers them in one record, the environment,
  and every function of the module becomes a function of that environment.

  Python strings are modelled as \<^typ>\<open>string\<close>: a character stands for a code point
  below 256. An exception is a value \<open>Inl e\<close> of a sum type, a normal return is \<open>Inr v\<close>.
  The names of the module's private functions lose their leading underscore, which an
  Isabelle name cannot have.
\<close>

subsection \<open>Exceptions and log records\<close>

datatype error =
    KeyError string
  | IndexError
  | TypeError
  | InterpreterProbeError
  | OSError
  | UnicodeDecodeError

datatype level = INFO | WARNING | ERROR

type_synonym log_record = "level \<times> string"

subsection \<open>String methods\<close>

definition startswith :: "string \<Rightarrow> string \<Rightarrow> bool" where
  "startswith s p = prefix p s"

definition endswith :: "string \<Rightarrow> string \<Rightarrow> bool" where
  "endswith s p = suffix p s"

text \<open>\<open>str_in p s\<close> is Python's \<^verbatim>\<open>p in s\<close> on strings: \<open>p\<close> occurs in \<open>s\<close> as a
  contiguous run.\<close>

definition str_in :: "string \<Rightarrow> string \<Rightarrow> bool" where
  "str_in p s = sublist p s"

text \<open>\<^verbatim>\<open>str.isspace\<close> on the code points below 256: tab to carriage return, the four
  separators 28 to 31, space, NEL (133) and the no-break space (160).\<close>

definition isspace :: "char \<Rightarrow> bool" where
  "isspace c =
     (let n = (of_char c :: nat)
      in (9 \<le> n \<and> n \<le> 13) \<or> (28 \<le> n \<and> n \<le> 32) \<or> n = 133 \<or> n = 160)"

definition strip :: "string \<Rightarrow> string" where
  "strip s = rev (dropWhile isspace (rev (dropWhile isspace s)))"

text \<open>\<^verbatim>\<open>str.lower\<close> on the code points below 256: the ASCII capitals and the Latin-1
  capitals (192 to 222 but for the multiplication sign 215) move up by 32.\<close>

definition lower_char :: "char \<Rightarrow> char" where
  "lower_char c =
     (let n = (of_char c :: nat)
      in if (65 \<le> n \<and> n \<le> 90) \<or> (192 \<le> n \<and> n \<le> 222 \<and> n \<noteq> 215)
         then char_of (n + 32) else c)"

definition lower :: "string \<Rightarrow> string" where
  "lower s = map lower_char s"

text \<open>\<^verbatim>\<open>s.split(sep)\<close> for a separator of one character. The result is never empty.\<close>

fun split_chr :: "char \<Rightarrow> string \<Rightarrow> string list" where
  "split_chr sep [] = [[]]"
| "split_chr sep (c # s) =
     (if c = sep then [] # split_chr sep s
      else (case split_chr sep s of
              [] \<Rightarrow> [[c]]
            | w # ws \<Rightarrow> (c # w) # ws))"

text \<open>\<^verbatim>\<open>xs[0]\<close>, which raises \<^verbatim>\<open>IndexError\<close> on the empty list.\<close>

definition first :: "'a list \<Rightarrow> error + 'a" where
  "first xs = (case xs of [] \<Rightarrow> Inl IndexError | x # _ \<Rightarrow> Inr x)"

subsection \<open>\<^verbatim>\<open>os.path\<close> on a POSIX host\<close>

text \<open>
  \<^verbatim>\<open>os.path\<close> is \<^verbatim>\<open>posixpath\<close> on macOS and Linux and \<^verbatim>\<open>ntpath\<close> on Windows, so the
  environment carries the three functions the module calls. These are the ones of
  \<^verbatim>\<open>posixpath\<close>, with which the concrete environments below are built.
\<close>

definition posix_join_step :: "string \<Rightarrow> string \<Rightarrow> string" where
  "posix_join_step path b =
     (if startswith b ''/'' then b
      else if path = [] \<or> endswith path ''/'' then path @ b
      else path @ ''/'' @ b)"

definition posix_join :: "string \<Rightarrow> string list \<Rightarrow> string" where
  "posix_join a p = foldl posix_join_step a p"

definition posix_basename :: "string \<Rightarrow> string" where
  "posix_basename p = rev (takeWhile (\<lambda>c. c \<noteq> CHR ''/'') (rev p))"

definition posix_dirname :: "string \<Rightarrow> string" where
  "posix_dirname p =
     (let head = rev (dropWhile (\<lambda>c. c \<noteq> CHR ''/'') (rev p))
      in if head \<noteq> [] \<and> filter (\<lambda>c. c \<noteq> CHR ''/'') head \<noteq> []
         then rev (dropWhile (\<lambda>c. c = CHR ''/'') (rev head))
         else head)"

subsection \<open>The file system and the manifest\<close>

text \<open>
  A node of the file system is a file or a directory with its named entries, in the order
  the directory lists them. The environment maps a path to the node found there, if any.
\<close>

datatype fsnode = File | Dir "(string \<times> fsnode) list"

text \<open>Modelled from the spec: the kind of a manifest entry, which the class \<^verbatim>\<open>Tree\<close>
  (not part of the module) sets; the spec (section 3): "entry kind -- regular file or
  directory marker". The module reads the source path of an entry only.\<close>

datatype entry_kind = RegularFile | DirectoryMarker

text \<open>A manifest entry: destination path, source path, kind.\<close>

type_synonym toc_entry = "string \<times> string \<times> entry_kind"

type_synonym toc = "toc_entry list"

subsection \<open>The environment\<close>

record env =
  is_darwin :: bool
  path_join :: "string \<Rightarrow> string list \<Rightarrow> string"
  path_dirname :: "string \<Rightarrow> string"
  path_basename :: "string \<Rightarrow> string"
  exec_statement :: "string \<Rightarrow> error + string"
  selectImports :: "string \<Rightarrow> (string \<times> string) list"
  getImports :: "string \<Rightarrow> string list"
  in_system_path :: "string \<Rightarrow> bool"
  fs :: "string \<Rightarrow> fsnode option"
  open_readlines :: "string \<Rightarrow> error + string list"

text \<open>
  \<^item> \<open>is_darwin\<close> is \<^verbatim>\<open>compat.is_darwin\<close>.
  \<^item> \<open>exec_statement\<close> runs a statement in a fresh interpreter and returns what it
    prints, or fails.
  \<^item> \<open>selectImports\<close> and \<open>getImports\<close> are the two calls into \<^verbatim>\<open>bindepend\<close>: the
    curated list of (name, path) pairs, and the full set of linked images, given here as
    the list in which the \<^verbatim>\<open>for\<close> loop meets its members.
  \<^item> \<open>in_system_path\<close> is \<^verbatim>\<open>macholib.util.in_system_path\<close>.
  \<^item> \<open>open_readlines p\<close> is
    \<^verbatim>\<open>open(p, 'r', encoding=locale.getpreferredencoding()).readlines()\<close>: the
    lines of the file, or the exception of a file that cannot be opened or decoded.
\<close>

definition isdir :: "env \<Rightarrow> string \<Rightarrow> bool" where
  "isdir e p = (case fs e p of Some (Dir _) \<Rightarrow> True | _ \<Rightarrow> False)"

text \<open>Python's truth value of a variable holding a string or \<^verbatim>\<open>None\<close>.\<close>

definition truthy :: "string option \<Rightarrow> bool" where
  "truthy r = (case r of None \<Rightarrow> False | Some s \<Rightarrow> s \<noteq> [])"

subsection \<open>The directory-tree enumerator and the sum of manifests\<close>

text \<open>Modelled from the spec: \<^verbatim>\<open>Tree\<close> of \<^verbatim>\<open>PyInstaller.building.datastruct\<close>, whose
  source is not part of the module. The spec (section 6): "given a root path, a
  destination prefix, and a list of exclusion glob patterns, returns an ordered sequence
  of FileManifestEntry covering all files/directories under the root not matched by an
  exclusion pattern", an entry being (section 3) "a triple of (destination-relative
  path, source absolute path, entry kind -- regular file or directory marker)" with the
  path prefix applied. A glob is a pattern in which \<^verbatim>\<open>*\<close> stands for any run of
  characters and \<^verbatim>\<open>?\<close> for one; it is matched against the name of an entry in its
  directory, and what lies under an excluded directory is not visited.
\<close>

fun glob_match :: "string \<Rightarrow> string \<Rightarrow> bool" where
  "glob_match [] s = (s = [])"
| "glob_match (p # ps) s =
     (if p = CHR ''*'' then
        (glob_match ps s \<or> (case s of [] \<Rightarrow> False | _ # s' \<Rightarrow> glob_match (p # ps) s'))
      else (case s of
              [] \<Rightarrow> False
            | c # s' \<Rightarrow> (p = CHR ''?'' \<or> c = p) \<and> glob_match ps s'))"

text \<open>Modelled from the spec: a name is excluded when one of the patterns matches it.\<close>

definition excluded :: "string list \<Rightarrow> string \<Rightarrow> bool" where
  "excluded excludes name = list_ex (\<lambda>pat. glob_match pat name) excludes"

text \<open>Modelled from the spec: the entry kind of a node.\<close>

definition kind_of :: "fsnode \<Rightarrow> entry_kind" where
  "kind_of node = (case node of File \<Rightarrow> RegularFile | Dir _ \<Rightarrow> DirectoryMarker)"

text \<open>Modelled from the spec: the walk of \<^verbatim>\<open>Tree\<close> over a directory. It yields the
  path of every entry that no pattern excludes, as the list of names from the root down,
  with its kind.\<close>

fun walk :: "string list \<Rightarrow> fsnode \<Rightarrow> (string list \<times> entry_kind) list"
  and walk_entries ::
    "string list \<Rightarrow> (string \<times> fsnode) list \<Rightarrow> (string list \<times> entry_kind) list" where
  "walk excludes File = []"
| "walk excludes (Dir entries) = walk_entries excludes entries"
| "walk_entries excludes [] = []"
| "walk_entries excludes ((name, node) # entries) =
     (if excluded excludes name then []
      else ([name], kind_of node) # map (\<lambda>(cs, k). (name # cs, k)) (walk excludes node))
     @ walk_entries excludes entries"

text \<open>Modelled from the spec: the names of a relative path joined one by one to a base
  path, as \<^verbatim>\<open>os.path.join\<close> does.\<close>

definition join_all :: "env \<Rightarrow> string \<Rightarrow> string list \<Rightarrow> string" where
  "join_all e base cs = foldl (\<lambda>p c. path_join e p [c]) base cs"

text \<open>Modelled from the spec: the entry of a relative path, with the destination under
  the prefix and the source under the root.\<close>

definition mk_entry :: "env \<Rightarrow> string \<Rightarrow> string \<Rightarrow> string list \<times> entry_kind \<Rightarrow> toc_entry" where
  "mk_entry e root pre ck = (join_all e pre (fst ck), join_all e root (fst ck), snd ck)"

text \<open>Modelled from the spec: \<^verbatim>\<open>Tree(root, prefix=pre, excludes=excludes)\<close>. The
  module builds a tree only of a path it has found to be a directory; of any other path
  the model's tree is empty.\<close>

definition Tree :: "env \<Rightarrow> string \<Rightarrow> string \<Rightarrow> string list \<Rightarrow> toc" where
  "Tree e root pre excludes =
     (case fs e root of
        Some (Dir entries) \<Rightarrow> map (mk_entry e root pre) (walk excludes (Dir entries))
      | _ \<Rightarrow> [])"

text \<open>Modelled from the spec: \<^verbatim>\<open>+\<close> on manifests, the \<^verbatim>\<open>__add__\<close> of the class
  \<^verbatim>\<open>TOC\<close> in \<^verbatim>\<open>PyInstaller.building.datastruct\<close>. The spec (section 4.5): "the
  concatenation of core manifest + widget manifest + module manifest, preserving each
  source's internal ordering"; uniqueness of destination paths is "not independently
  enforced".\<close>

definition toc_add :: "toc \<Rightarrow> toc \<Rightarrow> toc" where
  "toc_add a b = a @ b"

subsection \<open>\<^verbatim>\<open>_warn_if_activetcl_or_teapot_installed\<close>\<close>

text \<open>The \<^verbatim>\<open>for\<close> loop over the lines of \<^verbatim>\<open>init.tcl\<close>, from the values of the two
  flags on entry to their values when the loop ends or breaks.\<close>

fun scan_lines :: "bool \<Rightarrow> bool \<Rightarrow> string list \<Rightarrow> bool \<times> bool" where
  "scan_lines mentions_activetcl mentions_teapot [] = (mentions_activetcl, mentions_teapot)"
| "scan_lines mentions_activetcl mentions_teapot (line # rest) =
     (let line = lower (strip line)
      in if startswith line ''#'' then scan_lines mentions_activetcl mentions_teapot rest
         else
           (let a = (if str_in ''activetcl'' line then True else mentions_activetcl);
                t = (if str_in ''teapot'' line then True else mentions_teapot)
            in if a \<and> t then (a, t) else scan_lines a t rest))"

definition nl :: string where
  "nl = [char_of (10 :: nat)]"

definition activetcl_warning :: "string \<Rightarrow> string" where
  \<open>activetcl_warning init_resource =
     nl
     @ ''You appear to be using an ActiveTcl build of Tcl/Tk, which PyInstaller has'' @ nl
     @ ''difficulty freezing. To fix this, comment out all references to "teapot" in:'' @ nl
     @ nl
     @ ''     '' @ init_resource @ nl
     @ nl
     @ ''See https://github.com/pyinstaller/pyinstaller/issues/621 for more information.'' @ nl
     @ ''            ''\<close>

text \<open>Line 52: \<^verbatim>\<open>[r[1] for r in tcltree if r[1].endswith('init.tcl')][0]\<close>.\<close>

definition init_resource_of :: "toc \<Rightarrow> error + string" where
  "init_resource_of tcltree =
     first (filter (\<lambda>p. endswith p ''init.tcl'') (map (\<lambda>r. fst (snd r)) tcltree))"

text \<open>
  The function gets the manifest by reference, so the model returns three things: the
  outcome of the call (an exception or \<^verbatim>\<open>None\<close>), the manifest as the call leaves it,
  and the records it logged. \<^verbatim>\<open>IndexError\<close> is the one exception the function catches.
\<close>

definition warn_if_activetcl_or_teapot_installed ::
    "env \<Rightarrow> string \<Rightarrow> toc \<Rightarrow> (error + unit) \<times> toc \<times> log_record list" where
  "warn_if_activetcl_or_teapot_installed e tcl_root tcltree =
     (if in_system_path e tcl_root then (Inr (), tcltree, [])
      else
        (case init_resource_of tcltree of
           Inl _ \<Rightarrow> (Inr (), tcltree, [])
         | Inr init_resource \<Rightarrow>
             (case open_readlines e init_resource of
                Inl err \<Rightarrow> (Inl err, tcltree, [])
              | Inr lines \<Rightarrow>
                  (case scan_lines False False lines of
                     (mentions_activetcl, mentions_teapot) \<Rightarrow>
                       if mentions_activetcl \<and> mentions_teapot
                       then (Inr (), tcltree, [(WARNING, activetcl_warning init_resource)])
                       else (Inr (), tcltree, [])))))"

subsection \<open>\<^verbatim>\<open>_find_tcl_tk_dir\<close> and \<^verbatim>\<open>_find_tcl_tk\<close>\<close>

definition tcl_library_stmt :: string where
  \<open>tcl_library_stmt = ''from tkinter import Tcl; print(Tcl().eval("info library"))''\<close>

definition tk_version_stmt :: string where
  "tk_version_stmt = ''from _tkinter import TK_VERSION; print(TK_VERSION)''"

definition tcl_version_stmt :: string where
  \<open>tcl_version_stmt = ''from tkinter import Tcl; print(Tcl().eval("info tclversion"))''\<close>

definition find_tcl_tk_dir :: "env \<Rightarrow> error + (string option \<times> string option)" where
  "find_tcl_tk_dir e =
     (case exec_statement e tcl_library_stmt of
        Inl err \<Rightarrow> Inl err
      | Inr tcl_root \<Rightarrow>
          (case exec_statement e tk_version_stmt of
             Inl err \<Rightarrow> Inl err
           | Inr tk_version \<Rightarrow>
               Inr (Some tcl_root,
                    Some (path_join e (path_dirname e tcl_root) [''tk'' @ tk_version]))))"

text \<open>Lines 135 to 141: the dictionary from base name to path, a later image replacing
  an earlier one of the same base name, and the two lookups.\<close>

definition reformat_imports :: "env \<Rightarrow> string list \<Rightarrow> error + (string \<times> string) list" where
  "reformat_imports e bins =
     (let mapping = foldl (\<lambda>m lib. m(path_basename e lib \<mapsto> lib)) Map.empty bins
      in case mapping ''Tcl'' of
           None \<Rightarrow> Inl (KeyError ''Tcl'')
         | Some tcl \<Rightarrow>
             (case mapping ''Tk'' of
                None \<Rightarrow> Inl (KeyError ''Tk'')
              | Some tk \<Rightarrow> Inr [(''Tcl'', tcl), (''Tk'', tk)]))"

text \<open>Lines 150 to 160: the test of the path of the first image.\<close>

definition check_path_to_tcl ::
    "env \<Rightarrow> (string \<times> string) list \<Rightarrow> error + (string option \<times> string option)" where
  "check_path_to_tcl e bins =
     (case first bins of
        Inl err \<Rightarrow> Inl err
      | Inr b \<Rightarrow>
          (let path_to_tcl = snd b
           in if str_in ''Library/Frameworks/Tcl.framework'' path_to_tcl then Inr (None, None)
              else find_tcl_tk_dir e))"

definition find_tcl_tk :: "env \<Rightarrow> string \<Rightarrow> error + (string option \<times> string option)" where
  "find_tcl_tk e tkinter_ext_file =
     (if is_darwin e then
        (let bins = selectImports e tkinter_ext_file
         in if bins = [] then
              (let bins = getImports e tkinter_ext_file
               in if bins \<noteq> [] then
                    (case reformat_imports e bins of
                       Inl err \<Rightarrow> Inl err
                     | Inr bins \<Rightarrow> check_path_to_tcl e bins)
                  else Inr (None, None))
            else check_path_to_tcl e bins)
      else find_tcl_tk_dir e)"

subsection \<open>\<^verbatim>\<open>_collect_tcl_modules\<close>\<close>

definition collect_tcl_modules :: "env \<Rightarrow> string \<Rightarrow> (error + toc) \<times> log_record list" where
  "collect_tcl_modules e tcl_root =
     (case exec_statement e tcl_version_stmt of
        Inl err \<Rightarrow> (Inl err, [])
      | Inr tcl_version \<Rightarrow>
          (case first (split_chr CHR ''.'' tcl_version) of
             Inl err \<Rightarrow> (Inl err, [])
           | Inr tcl_version \<Rightarrow>
               (let modules_dirname = ''tcl'' @ tcl_version;
                    modules_path = path_join e tcl_root [''..'', modules_dirname]
                in if \<not> isdir e modules_path
                   then (Inr [],
                         [(WARNING, ''Tcl modules directory '' @ modules_path @ '' does not exist.'')])
                   else (Inr (Tree e modules_path modules_dirname []), []))))"

subsection \<open>\<^verbatim>\<open>collect_tcl_tk_files\<close>\<close>

text \<open>The exclusion lists of lines 230 and 232, and the texts of the log records.\<close>

definition tcl_excludes :: "string list" where
  "tcl_excludes = [''demos'', ''*.lib'', ''tclConfig.sh'']"

definition tk_excludes :: "string list" where
  "tk_excludes = [''demos'', ''*.lib'', ''tkConfig.sh'']"

definition not_collecting_msg :: string where
  "not_collecting_msg =
     ''Not collecting Tcl/Tk data - either python is using ''
     @ ''macOS' system Tcl/Tk framework, or Tcl/Tk data ''
     @ ''directories could not be found.''"

definition dir_not_found_msg :: "string \<Rightarrow> string \<Rightarrow> string" where
  \<open>dir_not_found_msg which d = which @ '' data directory "'' @ d @ ''" not found.''\<close>

text \<open>Lines 229 to 242: the two trees, the health check on macOS, the modules, the sum.\<close>

definition assemble ::
    "env \<Rightarrow> string \<Rightarrow> string \<Rightarrow> (error + toc) \<times> log_record list" where
  "assemble e tcl_root tk_root =
     (let tcltree = Tree e tcl_root ''tcl'' tcl_excludes;
          tktree = Tree e tk_root ''tk'' tk_excludes
      in case (if is_darwin e then warn_if_activetcl_or_teapot_installed e tcl_root tcltree
               else (Inr (), tcltree, [])) of
           (Inl err, _, logged) \<Rightarrow> (Inl err, logged)
         | (Inr _, tcltree, logged) \<Rightarrow>
             (case collect_tcl_modules e tcl_root of
                (Inl err, logged') \<Rightarrow> (Inl err, logged @ logged')
              | (Inr tclmodulestree, logged') \<Rightarrow>
                  (Inr (toc_add (toc_add tcltree tktree) tclmodulestree), logged @ logged')))"

text \<open>
  Lines 204 to 227, then the assembly. A variable that holds \<^verbatim>\<open>None\<close> or a string is a
  \<^typ>\<open>string option\<close>, and \<^verbatim>\<open>os.path.isdir(None)\<close> raises \<^verbatim>\<open>TypeError\<close>
  (\<^verbatim>\<open>os.stat\<close> does, and \<^verbatim>\<open>isdir\<close> catches only \<^verbatim>\<open>OSError\<close> and
  \<^verbatim>\<open>ValueError\<close>). The pair is the manifest or the exception, and the records logged.
\<close>

definition collect_tcl_tk_files :: "env \<Rightarrow> string \<Rightarrow> (error + toc) \<times> log_record list" where
  "collect_tcl_tk_files e tkinter_ext_file =
     (case find_tcl_tk e tkinter_ext_file of
        Inl err \<Rightarrow> (Inl err, [])
      | Inr (tcl_root, tk_root) \<Rightarrow>
          if is_darwin e \<and> \<not> truthy tcl_root \<and> \<not> truthy tk_root
          then (Inr [], [(INFO, not_collecting_msg)])
          else if \<not> truthy tcl_root
          then (Inr [], [(ERROR, ''Tcl/Tk improperly installed on this system.'')])
          else
            (case tcl_root of
               None \<Rightarrow> (Inl TypeError, [])
             | Some tcl_dir \<Rightarrow>
                 if \<not> isdir e tcl_dir
                 then (Inr [], [(ERROR, dir_not_found_msg ''Tcl'' tcl_dir)])
                 else
                   (case tk_root of
                      None \<Rightarrow> (Inl TypeError, [])
                    | Some tk_dir \<Rightarrow>
                        if \<not> isdir e tk_dir
                        then (Inr [], [(ERROR, dir_not_found_msg ''Tk'' tk_dir)])
                        else assemble e tcl_dir tk_dir)))"

subsection \<open>The terms of the specification\<close>

text \<open>
  The linked images the resolver looks at are the curated ones when there are any, and
  the full set otherwise. The Tcl image is the one among them whose base name is
  \<^verbatim>\<open>Tcl\<close> (the first such, should there be several); its path is the Tcl image's path.
\<close>

definition linked_images :: "env \<Rightarrow> string \<Rightarrow> string list" where
  "linked_images e f =
     (case selectImports e f of
        [] \<Rightarrow> getImports e f
      | b # bs \<Rightarrow> map snd (b # bs))"

definition tcl_image_path :: "env \<Rightarrow> string \<Rightarrow> string option" where
  "tcl_image_path e f =
     (case filter (\<lambda>p. path_basename e p = ''Tcl'') (linked_images e f) of
        [] \<Rightarrow> None
      | p # _ \<Rightarrow> Some p)"

text \<open>
  A marker occurs in a script when one of its lines that is no comment (its stripped form
  does not start with \<^verbatim>\<open>#\<close>) contains it, letter case aside.
\<close>

definition mentions :: "string \<Rightarrow> string list \<Rightarrow> bool" where
  "mentions marker lines =
     list_ex (\<lambda>line. \<not> startswith (strip line) ''#'' \<and> str_in (lower marker) (lower line)) lines"

text \<open>A root is an existing directory when it holds a path and that path is a directory.\<close>

definition existing_dir :: "env \<Rightarrow> string option \<Rightarrow> bool" where
  "existing_dir e r = (case r of None \<Rightarrow> False | Some p \<Rightarrow> isdir e p)"

subsection \<open>Concrete hosts\<close>

text \<open>
  \<^verbatim>\<open>macholib.util.in_system_path\<close>, on a path that is already resolved: a path under
  \<^verbatim>\<open>/System/\<close> or \<^verbatim>\<open>/usr/\<close> is a system path, but for those under \<^verbatim>\<open>/usr/local/\<close>.
\<close>

definition macholib_in_system_path :: "string \<Rightarrow> bool" where
  "macholib_in_system_path fn =
     (if startswith fn ''/usr/local/'' then False
      else if startswith fn ''/System/'' \<or> startswith fn ''/usr/'' then True
      else False)"

text \<open>
  A host whose Tcl and Tk 8.6 are installed under the library directory \<open>lib\<close>: the
  interpreter reports the Tcl library in \<open>lib\<close>\<^verbatim>\<open>/tcl8.6\<close>, the three directories are on
  disk, and \<^verbatim>\<open>init.tcl\<close> names both markers, one of them also in a comment.
\<close>

definition probe_at :: "string \<Rightarrow> string \<Rightarrow> error + string" where
  "probe_at lib stmt =
     (if stmt = tcl_library_stmt then Inr (lib @ ''/tcl8.6'')
      else if stmt = tk_version_stmt then Inr ''8.6''
      else if stmt = tcl_version_stmt then Inr ''8.6''
      else Inl InterpreterProbeError)"

definition tcl_dir :: fsnode where
  "tcl_dir =
     Dir [(''init.tcl'', File),
          (''demos'', Dir [(''hello.tcl'', File)]),
          (''tclConfig.sh'', File),
          (''tcl86.lib'', File),
          (''encoding'', Dir [(''ascii.enc'', File), (''demos'', File)])]"

definition tk_dir :: fsnode where
  "tk_dir =
     Dir [(''tk.tcl'', File),
          (''tkConfig.sh'', File),
          (''tclConfig.sh'', File),
          (''demos'', Dir [(''widget'', File)])]"

definition modules_dir :: fsnode where
  "modules_dir = Dir [(''8.6'', Dir [(''http-2.9.0.tm'', File)])]"

definition host_fs_at :: "string \<Rightarrow> string \<Rightarrow> fsnode option" where
  "host_fs_at lib p =
     (if p = lib @ ''/tcl8.6'' then Some tcl_dir
      else if p = lib @ ''/tk8.6'' then Some tk_dir
      else if p = lib @ ''/tcl8.6/../tcl8'' then Some modules_dir
      else if p = lib @ ''/tcl8.6/init.tcl'' then Some File
      else None)"

definition init_tcl_lines_at :: "string \<Rightarrow> string \<Rightarrow> error + string list" where
  "init_tcl_lines_at lib p =
     (if p = lib @ ''/tcl8.6/init.tcl''
      then Inr [''# init.tcl --'' @ nl,
                ''  package require ActiveTcl'' @ nl,
                ''# teapot is only named in this comment'' @ nl,
                ''set auto_path [list $env(TEAPOT_HOME)]'' @ nl]
      else Inl OSError)"

definition host_at :: "bool \<Rightarrow> string \<Rightarrow> env" where
  "host_at darwin lib =
     \<lparr> is_darwin = darwin,
       path_join = posix_join,
       path_dirname = posix_dirname,
       path_basename = posix_basename,
       exec_statement = probe_at lib,
       selectImports = (\<lambda>_. []),
       getImports = (\<lambda>_. []),
       in_system_path = macholib_in_system_path,
       fs = host_fs_at lib,
       open_readlines = init_tcl_lines_at lib \<rparr>"

text \<open>A Linux host with Tcl/Tk under \<^verbatim>\<open>/usr/lib\<close>, and the same host without its Tk
  directory.\<close>

definition linux_env :: env where
  "linux_env = host_at False ''/usr/lib''"

definition linux_env_no_tk :: env where
  "linux_env_no_tk =
     linux_env \<lparr> fs := (\<lambda>p. if p = ''/usr/lib/tk8.6'' then None else host_fs_at ''/usr/lib'' p) \<rparr>"

text \<open>
  A macOS host with a private Tcl/Tk under \<^verbatim>\<open>/opt/tcl/lib\<close>, which is no system path;
  the same host when the scanner finds one image that is neither Tcl nor Tk, when it finds
  no image, and when \<^verbatim>\<open>init.tcl\<close> cannot be decoded in the preferred encoding.
\<close>

definition mac_env :: env where
  "mac_env =
     (host_at True ''/opt/tcl/lib'')
       \<lparr> selectImports := (\<lambda>_.
           [(''libtcl8.6.dylib'', ''/opt/tcl/lib/libtcl8.6.dylib''),
            (''libtk8.6.dylib'', ''/opt/tcl/lib/libtk8.6.dylib'')]) \<rparr>"

definition mac_env_no_tcl :: env where
  "mac_env_no_tcl =
     mac_env \<lparr> selectImports := (\<lambda>_. []), getImports := (\<lambda>_. [''/usr/lib/libSystem.B.dylib'']) \<rparr>"

definition mac_env_hidden :: env where
  "mac_env_hidden = mac_env \<lparr> selectImports := (\<lambda>_. []), getImports := (\<lambda>_. []) \<rparr>"

definition mac_env_undecodable :: env where
  "mac_env_undecodable =
     mac_env \<lparr> open_readlines := (\<lambda>p.
       if p = ''/opt/tcl/lib/tcl8.6/init.tcl'' then Inl UnicodeDecodeError else Inl OSError) \<rparr>"

text \<open>
  A macOS host whose extension module is linked against the Tcl and Tk frameworks under
  \<^verbatim>\<open>/Library/Frameworks\<close>, the interpreter reporting the library of that framework; once
  with the Tcl image first in the curated list, once with the Tk image first.
\<close>

definition framework_probe :: "string \<Rightarrow> error + string" where
  "framework_probe stmt =
     (if stmt = tcl_library_stmt
      then Inr ''/Library/Frameworks/Tcl.framework/Versions/8.5/Resources/Scripts''
      else if stmt = tk_version_stmt then Inr ''8.5''
      else if stmt = tcl_version_stmt then Inr ''8.5''
      else Inl InterpreterProbeError)"

definition mac_env_tcl_first :: env where
  "mac_env_tcl_first =
     mac_env
       \<lparr> exec_statement := framework_probe,
         selectImports := (\<lambda>_.
           [(''Tcl'', ''/Library/Frameworks/Tcl.framework/Versions/8.5/Tcl''),
            (''Tk'', ''/Library/Frameworks/Tk.framework/Versions/8.5/Tk'')]) \<rparr>"

definition mac_env_tk_first :: env where
  "mac_env_tk_first =
     mac_env
       \<lparr> exec_statement := framework_probe,
         selectImports := (\<lambda>_.
           [(''Tk'', ''/Library/Frameworks/Tk.framework/Versions/8.5/Tk''),
            (''Tcl'', ''/Library/Frameworks/Tcl.framework/Versions/8.5/Tcl'')]) \<rparr>"

section \<open>Properties\<close>

subsection \<open>\<^verbatim>\<open>posixpath\<close>: the sibling of a directory\<close>

lemma posix_dirname_shape:
  "posix_dirname p = []
   \<or> (posix_dirname p \<noteq> [] \<and> filter (\<lambda>c. c \<noteq> CHR ''/'') (posix_dirname p) = [])
   \<or> (posix_dirname p \<noteq> [] \<and> last (posix_dirname p) \<noteq> CHR ''/'')"
proof -
  let ?head = "rev (dropWhile (\<lambda>c. c \<noteq> CHR ''/'') (rev p))"
  show ?thesis
  proof (cases "?head \<noteq> [] \<and> filter (\<lambda>c. c \<noteq> CHR ''/'') ?head \<noteq> []")
    case False
    then have "posix_dirname p = ?head"
      unfolding posix_dirname_def Let_def by (rule if_not_P)
    with False show ?thesis
      by auto
  next
    case True
    let ?d = "dropWhile (\<lambda>c. c = CHR ''/'') (rev ?head)"
    from True have d: "posix_dirname p = rev ?d"
      unfolding posix_dirname_def Let_def by (rule if_P)
    from True have "\<exists>c \<in> set (rev ?head). c \<noteq> CHR ''/''"
      by (auto simp: filter_empty_conv)
    then have ne: "?d \<noteq> []"
      by (simp add: dropWhile_eq_Nil_conv)
    then have "hd ?d \<noteq> CHR ''/''"
      using hd_dropWhile [of "\<lambda>c. c = CHR ''/''" "rev ?head"] by blast
    with ne have "last (rev ?d) \<noteq> CHR ''/''"
      by (simp add: last_rev)
    with ne d show ?thesis
      by simp
  qed
qed

lemma posix_split_append:
  assumes "x = [] \<or> last x = CHR ''/''" and "CHR ''/'' \<notin> set name"
  shows "posix_basename (x @ name) = name"
    and "rev (dropWhile (\<lambda>c. c \<noteq> CHR ''/'') (rev (x @ name))) = x"
proof -
  from assms(2) have all: "\<forall>c \<in> set (rev name). c \<noteq> CHR ''/''"
    by auto
  from assms(1) have tw: "takeWhile (\<lambda>c. c \<noteq> CHR ''/'') (rev x) = []"
    and dw: "dropWhile (\<lambda>c. c \<noteq> CHR ''/'') (rev x) = rev x"
    by (cases x rule: rev_cases; simp)+
  from all have "takeWhile (\<lambda>c. c \<noteq> CHR ''/'') (rev name @ rev x) = rev name"
    by (subst takeWhile_append2) (auto simp: tw)
  then show "posix_basename (x @ name) = name"
    by (simp add: posix_basename_def)
  from all have "dropWhile (\<lambda>c. c \<noteq> CHR ''/'') (rev name @ rev x) = rev x"
    by (subst dropWhile_append2) (auto simp: dw)
  then show "rev (dropWhile (\<lambda>c. c \<noteq> CHR ''/'') (rev (x @ name))) = x"
    by simp
qed

lemma posix_sibling:
  assumes "name \<noteq> []" and "CHR ''/'' \<notin> set name"
  shows "posix_basename (posix_join (posix_dirname p) [name]) = name
         \<and> posix_dirname (posix_join (posix_dirname p) [name]) = posix_dirname p"
proof -
  let ?d = "posix_dirname p"
  from assms have ns: "\<not> startswith name ''/''"
    by (cases name) (auto simp: startswith_def)
  from posix_dirname_shape [of p]
  consider (empty) "?d = []"
    | (root) "?d \<noteq> []" "filter (\<lambda>c. c \<noteq> CHR ''/'') ?d = []"
    | (dir) "?d \<noteq> []" "last ?d \<noteq> CHR ''/''"
    by blast
  then show ?thesis
  proof cases
    case empty
    with ns have j: "posix_join ?d [name] = [] @ name"
      by (simp add: posix_join_def posix_join_step_def)
    have "posix_basename ([] @ name) = name"
      and "rev (dropWhile (\<lambda>c. c \<noteq> CHR ''/'') (rev ([] @ name))) = []"
      using assms(2) by (intro posix_split_append; simp)+
    with j empty show ?thesis
      by (simp add: posix_dirname_def)
  next
    case root
    then have l: "last ?d = CHR ''/''"
      by (metis (mono_tags, lifting) filter_empty_conv last_in_set)
    with root have e: "endswith ?d ''/''"
      by (cases ?d rule: rev_cases) (auto simp: endswith_def)
    with ns have j: "posix_join ?d [name] = ?d @ name"
      by (simp add: posix_join_def posix_join_step_def)
    have "posix_basename (?d @ name) = name"
      and "rev (dropWhile (\<lambda>c. c \<noteq> CHR ''/'') (rev (?d @ name))) = ?d"
      using assms(2) l by (intro posix_split_append; simp)+
    then have "posix_basename (?d @ name) = name" and "posix_dirname (?d @ name) = ?d"
      using root by (simp_all add: posix_dirname_def [of "?d @ name"])
    with j show ?thesis
      by simp
  next
    case dir
    then have "\<not> endswith ?d ''/''"
      by (cases ?d rule: rev_cases) (auto simp: endswith_def)
    with ns dir have j: "posix_join ?d [name] = (?d @ ''/'') @ name"
      by (simp add: posix_join_def posix_join_step_def)
    have b: "posix_basename ((?d @ ''/'') @ name) = name"
      and h: "rev (dropWhile (\<lambda>c. c \<noteq> CHR ''/'') (rev ((?d @ ''/'') @ name))) = ?d @ ''/''"
      using assms(2) by (intro posix_split_append; simp)+
    from dir have "filter (\<lambda>c. c \<noteq> CHR ''/'') (?d @ ''/'') \<noteq> []"
      by (cases ?d rule: rev_cases) auto
    moreover from dir have "rev (dropWhile (\<lambda>c. c = CHR ''/'') (rev (?d @ ''/''))) = ?d"
      by (cases ?d rule: rev_cases) auto
    ultimately have "posix_dirname ((?d @ ''/'') @ name) = ?d"
      unfolding posix_dirname_def [of "(?d @ ''/'') @ name"] h by (simp add: Let_def)
    with b j show ?thesis
      by simp
  qed
qed

subsection \<open>The platform resolver\<close>

lemma find_tcl_tk_dir_Some:
  "find_tcl_tk_dir e = Inr (a, b) \<Longrightarrow> \<exists>x y. a = Some x \<and> b = Some y"
  by (auto simp: find_tcl_tk_dir_def split: sum.splits)

lemma check_path_to_tcl_shape:
  "check_path_to_tcl e bins = Inr (a, b) \<Longrightarrow> (a = None \<and> b = None) \<or> (\<exists>x y. a = Some x \<and> b = Some y)"
  by (auto simp: check_path_to_tcl_def Let_def split: sum.splits if_splits dest: find_tcl_tk_dir_Some)

lemma find_tcl_tk_shape:
  "find_tcl_tk e f = Inr (a, b) \<Longrightarrow> (a = None \<and> b = None) \<or> (\<exists>x y. a = Some x \<and> b = Some y)"
  unfolding find_tcl_tk_def Let_def
  by (auto split: if_splits sum.splits dest: find_tcl_tk_dir_Some check_path_to_tcl_shape)

lemma mapping_dom:
  "dom (foldl (\<lambda>m lib. m(b lib \<mapsto> lib)) m0 bins) = dom m0 \<union> b ` set bins"
  by (induction bins arbitrary: m0) auto

lemma mapping_lookup_None:
  "foldl (\<lambda>m lib. m(b lib \<mapsto> lib)) Map.empty bins k = None \<longleftrightarrow> k \<notin> b ` set bins"
proof -
  have "k \<in> dom (foldl (\<lambda>m lib. m(b lib \<mapsto> lib)) Map.empty bins) \<longleftrightarrow> k \<in> b ` set bins"
    unfolding mapping_dom by simp
  then show ?thesis
    unfolding domIff by blast
qed

text \<open>
  Claim C2. Off macOS, when the interpreter answers the two probes, \<open>find_tcl_tk\<close> returns
  the pair of the core-library path it reported and of the directory \<^verbatim>\<open>tk\<close> followed by the
  Tk version, joined to the parent directory of that path. With the path functions of
  \<^verbatim>\<open>posixpath\<close> and a version without a slash, the second path has that name as its base name
  and the same parent as the first: it is the sibling of the core library.
\<close>

theorem find_tcl_tk_non_darwin:
  assumes "\<not> is_darwin e"
    and "exec_statement e tcl_library_stmt = Inr tcl_root"
    and "exec_statement e tk_version_stmt = Inr tk_version"
  shows "find_tcl_tk e f =
           Inr (Some tcl_root, Some (path_join e (path_dirname e tcl_root) [''tk'' @ tk_version]))
         \<and> (path_join e = posix_join \<and> path_dirname e = posix_dirname
              \<and> CHR ''/'' \<notin> set tk_version \<longrightarrow>
              posix_basename (path_join e (path_dirname e tcl_root) [''tk'' @ tk_version])
                = ''tk'' @ tk_version
              \<and> posix_dirname (path_join e (path_dirname e tcl_root) [''tk'' @ tk_version])
                = posix_dirname tcl_root)"
proof -
  from assms have "find_tcl_tk e f =
      Inr (Some tcl_root, Some (path_join e (path_dirname e tcl_root) [''tk'' @ tk_version]))"
    by (simp add: find_tcl_tk_def find_tcl_tk_dir_def)
  moreover have "CHR ''/'' \<notin> set tk_version \<Longrightarrow>
      posix_basename (posix_join (posix_dirname tcl_root) [''tk'' @ tk_version]) = ''tk'' @ tk_version
      \<and> posix_dirname (posix_join (posix_dirname tcl_root) [''tk'' @ tk_version])
          = posix_dirname tcl_root"
    by (rule posix_sibling) simp_all
  ultimately show ?thesis
    by simp
qed

theorem find_tcl_tk_non_darwin_witness:
  "\<not> is_darwin linux_env
   \<and> exec_statement linux_env tcl_library_stmt = Inr ''/usr/lib/tcl8.6''
   \<and> exec_statement linux_env tk_version_stmt = Inr ''8.6''
   \<and> find_tcl_tk linux_env ''_tkinter.so'' = Inr (Some ''/usr/lib/tcl8.6'', Some ''/usr/lib/tk8.6'')
   \<and> posix_basename ''/usr/lib/tk8.6'' = ''tk8.6''
   \<and> posix_dirname ''/usr/lib/tk8.6'' = posix_dirname ''/usr/lib/tcl8.6''"
proof -
  have h1: "\<not> is_darwin linux_env"
    by code_simp
  have h2: "exec_statement linux_env tcl_library_stmt = Inr ''/usr/lib/tcl8.6''"
    by code_simp
  have h3: "exec_statement linux_env tk_version_stmt = Inr ''8.6''"
    by code_simp
  have p: "path_join linux_env = posix_join" "path_dirname linux_env = posix_dirname"
    by (simp_all add: linux_env_def host_at_def)
  have v: "CHR ''/'' \<notin> set ''8.6''"
    by simp
  have j: "posix_join (posix_dirname ''/usr/lib/tcl8.6'') [''tk'' @ ''8.6''] = ''/usr/lib/tk8.6''"
    by code_simp
  from find_tcl_tk_non_darwin [OF h1 h2 h3, of "''_tkinter.so''"] h1 h2 h3 p v j show ?thesis
    by simp
qed

text \<open>
  Claim C9. Off macOS the result of \<open>find_tcl_tk\<close> depends neither on the path of the
  extension module nor on anything the dependency scanner would answer: any two arguments
  and any two scanners give the same result, the probes being the same.
\<close>

theorem find_tcl_tk_non_darwin_independent:
  assumes "\<not> is_darwin e"
  shows "find_tcl_tk (e\<lparr>selectImports := s1, getImports := g1\<rparr>) f1
       = find_tcl_tk (e\<lparr>selectImports := s2, getImports := g2\<rparr>) f2"
  using assms by (simp add: find_tcl_tk_def find_tcl_tk_dir_def split: sum.splits)

theorem find_tcl_tk_non_darwin_independent_witness:
  "\<not> is_darwin linux_env
   \<and> find_tcl_tk (linux_env\<lparr>selectImports := (\<lambda>_. []), getImports := (\<lambda>_. [])\<rparr>) ''_tkinter.so''
     = find_tcl_tk (linux_env\<lparr>selectImports := (\<lambda>_. [(''Tcl'', ''/opt/Tcl'')]),
                              getImports := (\<lambda>_. [''/opt/Tcl''])\<rparr>) ''other.so''"
proof -
  have h: "\<not> is_darwin linux_env"
    by code_simp
  from h find_tcl_tk_non_darwin_independent [OF h] show ?thesis
    by blast
qed

lemma reformat_imports_KeyError:
  assumes "''Tcl'' \<notin> path_basename e ` set bins \<or> ''Tk'' \<notin> path_basename e ` set bins"
  shows "reformat_imports e bins =
           Inl (KeyError (if ''Tcl'' \<notin> path_basename e ` set bins then ''Tcl'' else ''Tk''))"
proof -
  let ?m = "foldl (\<lambda>m lib. m(path_basename e lib \<mapsto> lib)) Map.empty bins"
  have tcl: "(?m ''Tcl'' = None) = (''Tcl'' \<notin> path_basename e ` set bins)"
    by (rule mapping_lookup_None)
  have tk: "(?m ''Tk'' = None) = (''Tk'' \<notin> path_basename e ` set bins)"
    by (rule mapping_lookup_None)
  show ?thesis
  proof (cases "?m ''Tcl''")
    case None
    with tcl have "''Tcl'' \<notin> path_basename e ` set bins"
      by blast
    then have "(if ''Tcl'' \<notin> path_basename e ` set bins then ''Tcl'' else ''Tk'') = ''Tcl''"
      by (rule if_P)
    moreover from None have "reformat_imports e bins = Inl (KeyError ''Tcl'')"
      unfolding reformat_imports_def Let_def by simp
    ultimately show ?thesis
      by (simp only:)
  next
    case (Some p)
    with tcl have present: "\<not> ''Tcl'' \<notin> path_basename e ` set bins"
      by auto
    then have "(if ''Tcl'' \<notin> path_basename e ` set bins then ''Tcl'' else ''Tk'') = ''Tk''"
      by (rule if_not_P)
    moreover from present assms tk have "?m ''Tk'' = None"
      by blast
    with Some have "reformat_imports e bins = Inl (KeyError ''Tk'')"
      unfolding reformat_imports_def Let_def by simp
    ultimately show ?thesis
      by (simp only:)
  qed
qed

text \<open>
  Claim C10. On macOS, when the curated list is empty and the full set of images is not, and
  no image has the base name \<^verbatim>\<open>Tcl\<close> or none has the base name \<^verbatim>\<open>Tk\<close>, \<open>find_tcl_tk\<close>
  raises \<^verbatim>\<open>KeyError\<close> (of \<^verbatim>\<open>Tcl\<close> if that name is missing, of \<^verbatim>\<open>Tk\<close> if not), and
  \<open>collect_tcl_tk_files\<close> raises it too, with nothing logged and no manifest returned.
\<close>

theorem find_tcl_tk_keyerror:
  assumes "is_darwin e"
    and "selectImports e f = []"
    and "getImports e f \<noteq> []"
    and "''Tcl'' \<notin> path_basename e ` set (getImports e f)
         \<or> ''Tk'' \<notin> path_basename e ` set (getImports e f)"
  shows "find_tcl_tk e f =
           Inl (KeyError (if ''Tcl'' \<notin> path_basename e ` set (getImports e f)
                          then ''Tcl'' else ''Tk''))
         \<and> collect_tcl_tk_files e f =
           (Inl (KeyError (if ''Tcl'' \<notin> path_basename e ` set (getImports e f)
                           then ''Tcl'' else ''Tk'')), [])"
proof -
  let ?k = "if ''Tcl'' \<notin> path_basename e ` set (getImports e f) then ''Tcl'' else ''Tk''"
  from assms(4) have "reformat_imports e (getImports e f) = Inl (KeyError ?k)"
    by (rule reformat_imports_KeyError)
  with assms(1-3) have r: "find_tcl_tk e f = Inl (KeyError ?k)"
    unfolding find_tcl_tk_def Let_def by (simp only: if_True if_False simp_thms sum.case)
  then have "collect_tcl_tk_files e f = (Inl (KeyError ?k), [])"
    unfolding collect_tcl_tk_files_def by (simp only: sum.case)
  with r show ?thesis
    by (intro conjI)
qed

theorem find_tcl_tk_keyerror_witness:
  "is_darwin mac_env_no_tcl
   \<and> selectImports mac_env_no_tcl ''_tkinter.so'' = []
   \<and> getImports mac_env_no_tcl ''_tkinter.so'' = [''/usr/lib/libSystem.B.dylib'']
   \<and> find_tcl_tk mac_env_no_tcl ''_tkinter.so'' = Inl (KeyError ''Tcl'')
   \<and> collect_tcl_tk_files mac_env_no_tcl ''_tkinter.so'' = (Inl (KeyError ''Tcl''), [])"
proof -
  have h1: "is_darwin mac_env_no_tcl"
    by code_simp
  have h2: "selectImports mac_env_no_tcl ''_tkinter.so'' = []"
    by code_simp
  have g: "getImports mac_env_no_tcl ''_tkinter.so'' = [''/usr/lib/libSystem.B.dylib'']"
    by code_simp
  then have h3: "getImports mac_env_no_tcl ''_tkinter.so'' \<noteq> []"
    by simp
  have b: "path_basename mac_env_no_tcl ''/usr/lib/libSystem.B.dylib'' = ''libSystem.B.dylib''"
    by code_simp
  have n: "''Tcl'' \<notin> path_basename mac_env_no_tcl ` set (getImports mac_env_no_tcl ''_tkinter.so'')"
    by (simp add: g b)
  then have h4: "''Tcl'' \<notin> path_basename mac_env_no_tcl ` set (getImports mac_env_no_tcl ''_tkinter.so'')
          \<or> ''Tk'' \<notin> path_basename mac_env_no_tcl ` set (getImports mac_env_no_tcl ''_tkinter.so'')"
    by (rule disjI1)
  from find_tcl_tk_keyerror [OF h1 h2 h3 h4] n h1 h2 g show ?thesis
    by (simp only: if_True simp_thms)
qed

lemma find_tcl_tk_dir_not_skip: "find_tcl_tk_dir e \<noteq> Inr (None, None)"
  by (auto simp: find_tcl_tk_dir_def split: sum.splits)

lemma check_path_to_tcl_Cons:
  "check_path_to_tcl e (b # bs) =
     (if str_in ''Library/Frameworks/Tcl.framework'' (snd b) then Inr (None, None)
      else find_tcl_tk_dir e)"
  by (simp add: check_path_to_tcl_def first_def)

text \<open>
  With a curated list, the test of line 153 reads the path of its first image only,
  whatever the base name of that image and whatever follows it.
\<close>

lemma find_tcl_tk_darwin_curated:
  assumes "is_darwin e" and "selectImports e f = b # bs"
  shows "find_tcl_tk e f =
           (if str_in ''Library/Frameworks/Tcl.framework'' (snd b) then Inr (None, None)
            else find_tcl_tk_dir e)"
  using assms by (simp add: find_tcl_tk_def check_path_to_tcl_Cons)

text \<open>With no image found at all, the result is \<^verbatim>\<open>(None, None)\<close>.\<close>

lemma find_tcl_tk_darwin_no_images:
  assumes "is_darwin e" and "selectImports e f = []" and "getImports e f = []"
  shows "find_tcl_tk e f = Inr (None, None)"
  using assms by (simp add: find_tcl_tk_def)

text \<open>
  Claim C3, at an input where the code departs from it. The extension module is linked
  against the Tcl and Tk frameworks and the curated list names the Tk image first. The Tcl
  image's path contains \<^verbatim>\<open>Library/Frameworks/Tcl.framework\<close>, so the claim (and the comment
  of lines 150 to 154) has \<^verbatim>\<open>(None, None)\<close> returned; the code tests the path of the Tk
  image, which does not contain the segment, and falls back to the two directories the
  interpreter reports. With the same two images in the other order it returns
  \<^verbatim>\<open>(None, None)\<close>.
\<close>

theorem find_tcl_tk_tk_first:
  "is_darwin mac_env_tk_first
   \<and> selectImports mac_env_tk_first ''_tkinter.so'' =
       [(''Tk'', ''/Library/Frameworks/Tk.framework/Versions/8.5/Tk''),
        (''Tcl'', ''/Library/Frameworks/Tcl.framework/Versions/8.5/Tcl'')]
   \<and> tcl_image_path mac_env_tk_first ''_tkinter.so'' =
       Some ''/Library/Frameworks/Tcl.framework/Versions/8.5/Tcl''
   \<and> str_in ''Library/Frameworks/Tcl.framework''
         ''/Library/Frameworks/Tcl.framework/Versions/8.5/Tcl''
   \<and> find_tcl_tk mac_env_tk_first ''_tkinter.so'' =
       Inr (Some ''/Library/Frameworks/Tcl.framework/Versions/8.5/Resources/Scripts'',
            Some ''/Library/Frameworks/Tcl.framework/Versions/8.5/Resources/tk8.5'')
   \<and> tcl_image_path mac_env_tcl_first ''_tkinter.so'' =
       Some ''/Library/Frameworks/Tcl.framework/Versions/8.5/Tcl''
   \<and> find_tcl_tk mac_env_tcl_first ''_tkinter.so'' = Inr (None, None)"
  by code_simp

subsection \<open>The installation health check\<close>

lemma of_char_lower_char:
  "of_char (lower_char c) =
     (let n = (of_char c :: nat)
      in if (65 \<le> n \<and> n \<le> 90) \<or> (192 \<le> n \<and> n \<le> 222 \<and> n \<noteq> 215) then n + 32 else n)"
  by (auto simp: lower_char_def Let_def)

lemma isspace_lower_char: "isspace (lower_char c) = isspace c"
  unfolding isspace_def of_char_lower_char by (auto simp: Let_def)

lemma lower_char_hash: "lower_char c = CHR ''#'' \<longleftrightarrow> c = CHR ''#''"
proof -
  have "lower_char c = CHR ''#'' \<longleftrightarrow> (of_char (lower_char c) :: nat) = of_char CHR ''#''"
    by (simp only: of_char_eq_iff)
  also have "\<dots> \<longleftrightarrow> (of_char c :: nat) = of_char CHR ''#''"
    unfolding of_char_lower_char by (auto simp: Let_def)
  also have "\<dots> \<longleftrightarrow> c = CHR ''#''"
    by (simp only: of_char_eq_iff)
  finally show ?thesis .
qed

lemma lower_strip: "lower (strip s) = strip (lower s)"
proof -
  have "isspace \<circ> lower_char = isspace"
    by (rule ext) (simp add: isspace_lower_char)
  then show ?thesis
    by (simp add: lower_def strip_def dropWhile_map rev_map)
qed

lemma startswith_hash_lower: "startswith (lower s) ''#'' = startswith s ''#''"
proof (cases s)
  case Nil
  then show ?thesis by (simp add: startswith_def lower_def)
next
  case (Cons c cs)
  have "(CHR ''#'' = lower_char c) = (CHR ''#'' = c)"
    using lower_char_hash [of c] by auto
  with Cons show ?thesis
    by (simp add: startswith_def lower_def)
qed

lemma sublist_dropWhile:
  assumes "p \<noteq> []" and "\<And>c. c \<in> set p \<Longrightarrow> \<not> P c"
  shows "sublist p (dropWhile P s) = sublist p s"
proof (induction s)
  case Nil
  show ?case by simp
next
  case (Cons a s)
  show ?case
  proof (cases "P a")
    case True
    with assms have "\<not> prefix p (a # s)"
      by (cases p) auto
    with True Cons show ?thesis
      by (simp add: sublist_Cons_right)
  next
    case False
    then show ?thesis by simp
  qed
qed

lemma str_in_strip:
  assumes "p \<noteq> []" and "\<And>c. c \<in> set p \<Longrightarrow> \<not> isspace c"
  shows "str_in p (strip s) = str_in p s"
proof -
  have "sublist p (strip s) = sublist (rev p) (dropWhile isspace (rev (dropWhile isspace s)))"
    unfolding strip_def by (metis rev_rev_ident sublist_rev)
  also have "\<dots> = sublist (rev p) (rev (dropWhile isspace s))"
    using assms by (intro sublist_dropWhile) auto
  also have "\<dots> = sublist p (dropWhile isspace s)"
    by (simp only: sublist_rev)
  also have "\<dots> = sublist p s"
    using assms by (intro sublist_dropWhile) auto
  finally show ?thesis
    by (simp add: str_in_def)
qed

lemma lower_activetcl: "lower ''activetcl'' = ''activetcl''"
  by (simp add: lower_def lower_char_def)

lemma lower_teapot: "lower ''teapot'' = ''teapot''"
  by (simp add: lower_def lower_char_def)

lemma activetcl_in_line:
  "str_in ''activetcl'' (lower (strip l)) = str_in (lower ''activetcl'') (lower l)"
  unfolding lower_strip lower_activetcl
  by (rule str_in_strip) (auto simp: isspace_def)

lemma teapot_in_line:
  "str_in ''teapot'' (lower (strip l)) = str_in (lower ''teapot'') (lower l)"
  unfolding lower_strip lower_teapot
  by (rule str_in_strip) (auto simp: isspace_def)

lemma comment_line: "startswith (lower (strip l)) ''#'' = startswith (strip l) ''#''"
  by (rule startswith_hash_lower)

lemma scan_lines_flags:
  "scan_lines a t ls = (a', t') \<Longrightarrow>
     (a' \<and> t') = ((a \<or> mentions ''activetcl'' ls) \<and> (t \<or> mentions ''teapot'' ls))"
proof (induction ls arbitrary: a t)
  case Nil
  then show ?case by (simp add: mentions_def)
next
  case (Cons l ls)
  show ?case
  proof (cases "startswith (strip l) ''#''")
    case True
    with Cons.prems have "scan_lines a t ls = (a', t')"
      by (simp add: comment_line)
    from Cons.IH [OF this] True show ?thesis
      by (simp add: mentions_def)
  next
    case False
    let ?a = "a \<or> str_in (lower ''activetcl'') (lower l)"
    let ?t = "t \<or> str_in (lower ''teapot'') (lower l)"
    show ?thesis
    proof (cases "?a \<and> ?t")
      case True
      with False Cons.prems have "a' \<and> t'"
        by (auto simp: comment_line activetcl_in_line teapot_in_line Let_def split: if_splits)
      with True False show ?thesis
        by (auto simp: mentions_def)
    next
      case stop: False
      with False Cons.prems have "scan_lines ?a ?t ls = (a', t')"
        by (auto simp: comment_line activetcl_in_line teapot_in_line Let_def split: if_splits)
      from Cons.IH [OF this] False show ?thesis
        by (auto simp: mentions_def)
    qed
  qed
qed

text \<open>
  Claim C4. When the root is no system path, the manifest has an entry for \<^verbatim>\<open>init.tcl\<close> and
  the script can be read, the health check logs exactly one warning if both markers occur in
  lines of the script that are no comments, on one line or on two, and logs nothing
  otherwise; it returns normally and leaves the manifest as it was.
\<close>

theorem health_check_warning:
  assumes "\<not> in_system_path e tcl_root"
    and "init_resource_of tcltree = Inr init_resource"
    and "open_readlines e init_resource = Inr lines"
  shows "warn_if_activetcl_or_teapot_installed e tcl_root tcltree =
           (Inr (), tcltree,
            if mentions ''activetcl'' lines \<and> mentions ''teapot'' lines
            then [(WARNING, activetcl_warning init_resource)] else [])"
proof -
  obtain a t where scan: "scan_lines False False lines = (a, t)"
    by (cases "scan_lines False False lines")
  from scan_lines_flags [OF scan]
  have "(a \<and> t) = (mentions ''activetcl'' lines \<and> mentions ''teapot'' lines)"
    by simp
  with assms scan show ?thesis
    by (simp add: warn_if_activetcl_or_teapot_installed_def)
qed

theorem health_check_warning_witness:
  "\<not> in_system_path mac_env ''/opt/tcl/lib/tcl8.6''
   \<and> init_resource_of [(''tcl/init.tcl'', ''/opt/tcl/lib/tcl8.6/init.tcl'', RegularFile)]
       = Inr ''/opt/tcl/lib/tcl8.6/init.tcl''
   \<and> open_readlines mac_env ''/opt/tcl/lib/tcl8.6/init.tcl''
       = Inr [''# init.tcl --'' @ nl,
              ''  package require ActiveTcl'' @ nl,
              ''# teapot is only named in this comment'' @ nl,
              ''set auto_path [list $env(TEAPOT_HOME)]'' @ nl]
   \<and> warn_if_activetcl_or_teapot_installed mac_env ''/opt/tcl/lib/tcl8.6''
         [(''tcl/init.tcl'', ''/opt/tcl/lib/tcl8.6/init.tcl'', RegularFile)]
       = (Inr (), [(''tcl/init.tcl'', ''/opt/tcl/lib/tcl8.6/init.tcl'', RegularFile)],
          [(WARNING, activetcl_warning ''/opt/tcl/lib/tcl8.6/init.tcl'')])"
proof -
  let ?lines = "[''# init.tcl --'' @ nl,
                 ''  package require ActiveTcl'' @ nl,
                 ''# teapot is only named in this comment'' @ nl,
                 ''set auto_path [list $env(TEAPOT_HOME)]'' @ nl]"
  have h1: "\<not> in_system_path mac_env ''/opt/tcl/lib/tcl8.6''"
    by code_simp
  have h2: "init_resource_of [(''tcl/init.tcl'', ''/opt/tcl/lib/tcl8.6/init.tcl'', RegularFile)]
              = Inr ''/opt/tcl/lib/tcl8.6/init.tcl''"
    by code_simp
  have h3: "open_readlines mac_env ''/opt/tcl/lib/tcl8.6/init.tcl'' = Inr ?lines"
    by code_simp
  have m: "mentions ''activetcl'' ?lines \<and> mentions ''teapot'' ?lines"
    by code_simp
  from health_check_warning [OF h1 h2 h3] m h1 h2 h3 show ?thesis
    by simp
qed

lemma init_resource_of_none:
  "\<not> list_ex (\<lambda>r. endswith (fst (snd r)) ''init.tcl'') tcltree \<Longrightarrow>
     init_resource_of tcltree = Inl IndexError"
  by (simp add: init_resource_of_def first_def list_ex_iff filter_empty_conv split: list.splits)

lemma warn_manifest_unchanged:
  "fst (snd (warn_if_activetcl_or_teapot_installed e tcl_root tcltree)) = tcltree"
  by (simp add: warn_if_activetcl_or_teapot_installed_def split: sum.splits prod.splits)

text \<open>
  What holds of the health check on every input: it leaves the manifest as it was, it logs
  nothing or one warning, it returns with nothing logged when the root is a system path or
  no entry has a source path that ends with \<^verbatim>\<open>init.tcl\<close>, and the one exception it can
  raise is the one raised by opening and reading the file of line 52.
\<close>

lemma health_check_effects:
  "fst (snd (warn_if_activetcl_or_teapot_installed e tcl_root tcltree)) = tcltree
   \<and> (case snd (snd (warn_if_activetcl_or_teapot_installed e tcl_root tcltree)) of
         [] \<Rightarrow> True
       | r # rs \<Rightarrow> fst r = WARNING \<and> rs = [])
   \<and> (in_system_path e tcl_root
        \<or> \<not> list_ex (\<lambda>r. endswith (fst (snd r)) ''init.tcl'') tcltree
      \<longrightarrow> warn_if_activetcl_or_teapot_installed e tcl_root tcltree = (Inr (), tcltree, []))
   \<and> (case fst (warn_if_activetcl_or_teapot_installed e tcl_root tcltree) of
         Inr _ \<Rightarrow> True
       | Inl err \<Rightarrow>
           \<not> in_system_path e tcl_root
           \<and> (case init_resource_of tcltree of
                 Inl _ \<Rightarrow> False
               | Inr init_resource \<Rightarrow> open_readlines e init_resource = Inl err))"
proof -
  have logged: "case snd (snd (warn_if_activetcl_or_teapot_installed e tcl_root tcltree)) of
         [] \<Rightarrow> True | r # rs \<Rightarrow> fst r = WARNING \<and> rs = []"
    by (simp add: warn_if_activetcl_or_teapot_installed_def split: sum.splits prod.splits)
  have silent: "in_system_path e tcl_root
        \<or> \<not> list_ex (\<lambda>r. endswith (fst (snd r)) ''init.tcl'') tcltree
      \<longrightarrow> warn_if_activetcl_or_teapot_installed e tcl_root tcltree = (Inr (), tcltree, [])"
    by (auto simp: warn_if_activetcl_or_teapot_installed_def init_resource_of_none)
  have raises: "case fst (warn_if_activetcl_or_teapot_installed e tcl_root tcltree) of
         Inr _ \<Rightarrow> True
       | Inl err \<Rightarrow>
           \<not> in_system_path e tcl_root
           \<and> (case init_resource_of tcltree of
                 Inl _ \<Rightarrow> False
               | Inr init_resource \<Rightarrow> open_readlines e init_resource = Inl err)"
    by (simp add: warn_if_activetcl_or_teapot_installed_def split: sum.splits prod.splits)
  from warn_manifest_unchanged [of e tcl_root tcltree] logged silent raises show ?thesis
    by (intro conjI)
qed

text \<open>
  Claim C5, at an input where the code departs from it. On a macOS host whose Tcl root
  \<^verbatim>\<open>/opt/tcl/lib/tcl8.6\<close> is no system path and whose \<^verbatim>\<open>init.tcl\<close> cannot be decoded in
  the preferred encoding, the health check raises \<^verbatim>\<open>UnicodeDecodeError\<close>, having logged
  nothing, and \<open>collect_tcl_tk_files\<close> raises it too: the check that the docstring
  describes as logging a non-fatal warning ends the collection. The manifest is left as
  it was.
\<close>

theorem health_check_raises:
  "\<not> in_system_path mac_env_undecodable ''/opt/tcl/lib/tcl8.6''
   \<and> init_resource_of [(''tcl/init.tcl'', ''/opt/tcl/lib/tcl8.6/init.tcl'', RegularFile)]
       = Inr ''/opt/tcl/lib/tcl8.6/init.tcl''
   \<and> open_readlines mac_env_undecodable ''/opt/tcl/lib/tcl8.6/init.tcl''
       = Inl UnicodeDecodeError
   \<and> warn_if_activetcl_or_teapot_installed mac_env_undecodable ''/opt/tcl/lib/tcl8.6''
         [(''tcl/init.tcl'', ''/opt/tcl/lib/tcl8.6/init.tcl'', RegularFile)]
       = (Inl UnicodeDecodeError,
          [(''tcl/init.tcl'', ''/opt/tcl/lib/tcl8.6/init.tcl'', RegularFile)], [])
   \<and> collect_tcl_tk_files mac_env_undecodable ''_tkinter.so'' = (Inl UnicodeDecodeError, [])"
  by code_simp

text \<open>
  At a root under \<^verbatim>\<open>/usr/\<close>, a system path, the same file is never opened.
\<close>

lemma health_check_system_root:
  "in_system_path mac_env_undecodable ''/usr/lib/tcl8.6''
   \<and> warn_if_activetcl_or_teapot_installed mac_env_undecodable ''/usr/lib/tcl8.6''
         [(''tcl/init.tcl'', ''/opt/tcl/lib/tcl8.6/init.tcl'', RegularFile)]
       = (Inr (), [(''tcl/init.tcl'', ''/opt/tcl/lib/tcl8.6/init.tcl'', RegularFile)], [])"
  by code_simp

subsection \<open>The module directory collector\<close>

lemma first_split_chr: "first (split_chr c s) = Inr (takeWhile (\<lambda>x. x \<noteq> c) s)"
  by (induction s) (auto simp: first_def split: list.splits)

text \<open>
  Claim C6. When the interpreter answers the version probe, \<open>collect_tcl_modules\<close> takes as
  major version the part of the answer before its first dot and as modules directory the
  join of the Tcl root, \<^verbatim>\<open>..\<close> and \<^verbatim>\<open>tcl\<close> followed by that major version. If a directory is
  found there, it returns every entry under it, the destination of each built from the prefix
  \<^verbatim>\<open>tcl\<close> followed by the major version, and logs nothing; if not, it returns the empty
  manifest and logs one warning.
\<close>

theorem collect_tcl_modules_spec:
  assumes "exec_statement e tcl_version_stmt = Inr tcl_version"
  shows "collect_tcl_modules e tcl_root =
           (let major = takeWhile (\<lambda>c. c \<noteq> CHR ''.'') tcl_version;
                modules_dir = path_join e tcl_root [''..'', ''tcl'' @ major]
            in case fs e modules_dir of
                 Some (Dir entries) \<Rightarrow>
                   (Inr (map (mk_entry e modules_dir (''tcl'' @ major)) (walk [] (Dir entries))), [])
               | _ \<Rightarrow>
                   (Inr [],
                    [(WARNING, ''Tcl modules directory '' @ modules_dir @ '' does not exist.'')]))"
  using assms
  by (simp add: collect_tcl_modules_def first_split_chr isdir_def Tree_def Let_def
           split: option.splits fsnode.splits)

theorem collect_tcl_modules_spec_witness:
  "exec_statement linux_env tcl_version_stmt = Inr ''8.6''
   \<and> collect_tcl_modules linux_env ''/usr/lib/tcl8.6''
       = (Inr [(''tcl8/8.6'', ''/usr/lib/tcl8.6/../tcl8/8.6'', DirectoryMarker),
               (''tcl8/8.6/http-2.9.0.tm'', ''/usr/lib/tcl8.6/../tcl8/8.6/http-2.9.0.tm'',
                RegularFile)], [])"
proof -
  have h: "exec_statement linux_env tcl_version_stmt = Inr ''8.6''"
    by code_simp
  have r: "(let major = takeWhile (\<lambda>c. c \<noteq> CHR ''.'') ''8.6'';
                modules_dir = path_join linux_env ''/usr/lib/tcl8.6'' [''..'', ''tcl'' @ major]
            in case fs linux_env modules_dir of
                 Some (Dir entries) \<Rightarrow>
                   (Inr (map (mk_entry linux_env modules_dir (''tcl'' @ major))
                           (walk [] (Dir entries))), [])
               | _ \<Rightarrow>
                   (Inr [],
                    [(WARNING, ''Tcl modules directory '' @ modules_dir @ '' does not exist.'')]))
           = ((Inr [(''tcl8/8.6'', ''/usr/lib/tcl8.6/../tcl8/8.6'', DirectoryMarker),
               (''tcl8/8.6/http-2.9.0.tm'', ''/usr/lib/tcl8.6/../tcl8/8.6/http-2.9.0.tm'',
                RegularFile)], []) :: (error + toc) \<times> log_record list)"
    by code_simp
  from collect_tcl_modules_spec [OF h, of "''/usr/lib/tcl8.6''"] h r show ?thesis
    by simp
qed

subsection \<open>The exclusion rules\<close>

lemma excluded_Nil: "excluded [] name = False"
  by (simp add: excluded_def)

lemma walk_filter:
  "walk ex node = filter (\<lambda>ck. \<not> list_ex (excluded ex) (fst ck)) (walk [] node)"
  "walk_entries ex es = filter (\<lambda>ck. \<not> list_ex (excluded ex) (fst ck)) (walk_entries [] es)"
proof (induction ex node and ex es rule: walk_walk_entries.induct)
  case (1 ex)
  show ?case by simp
next
  case (2 ex es)
  then show ?case by simp
next
  case (3 ex)
  show ?case by simp
next
  case (4 ex name node es)
  show ?case
  proof (cases "excluded ex name")
    case True
    then show ?thesis
      using "4.IH"(2) by (simp add: excluded_Nil filter_map comp_def case_prod_unfold)
  next
    case False
    then show ?thesis
      using "4.IH" by (simp add: excluded_Nil filter_map comp_def case_prod_unfold)
  qed
qed

lemma glob_match_Cons_literal:
  "a \<noteq> CHR ''*'' \<Longrightarrow> a \<noteq> CHR ''?'' \<Longrightarrow>
     glob_match (a # ps) s = (case s of [] \<Rightarrow> False | c # s' \<Rightarrow> c = a \<and> glob_match ps s')"
  by (subst glob_match.simps(2)) (simp del: glob_match.simps split: list.splits)

lemma glob_match_star_Nil: "glob_match (CHR ''*'' # ps) [] = glob_match ps []"
  by (subst glob_match.simps(2)) (simp del: glob_match.simps)

lemma glob_match_star_Cons:
  "glob_match (CHR ''*'' # ps) (c # s) = (glob_match ps (c # s) \<or> glob_match (CHR ''*'' # ps) s)"
  by (subst glob_match.simps(2)) (simp del: glob_match.simps)

lemma glob_match_literal:
  "CHR ''*'' \<notin> set p \<Longrightarrow> CHR ''?'' \<notin> set p \<Longrightarrow> glob_match p s = (s = p)"
proof (induction p arbitrary: s)
  case Nil
  show ?case by simp
next
  case (Cons a p)
  then have "a \<noteq> CHR ''*''" and "a \<noteq> CHR ''?''" and "CHR ''*'' \<notin> set p" and "CHR ''?'' \<notin> set p"
    by auto
  with Cons.IH show ?case
    by (cases s) (simp_all add: glob_match_Cons_literal del: glob_match.simps)
qed

lemma glob_match_star_literal:
  assumes "CHR ''*'' \<notin> set p" and "CHR ''?'' \<notin> set p"
  shows "glob_match (CHR ''*'' # p) s = suffix p s"
proof (induction s)
  case Nil
  from assms show ?case
    by (auto simp add: glob_match_star_Nil glob_match_literal simp del: glob_match.simps)
next
  case (Cons c s)
  have "glob_match (CHR ''*'' # p) (c # s) = (glob_match p (c # s) \<or> glob_match (CHR ''*'' # p) s)"
    by (rule glob_match_star_Cons)
  also have "\<dots> = (c # s = p \<or> suffix p s)"
    using assms Cons by (simp add: glob_match_literal del: glob_match.simps)
  also have "\<dots> = suffix p (c # s)"
    by (auto simp: suffix_Cons)
  finally show ?case .
qed

lemma excluded_tcl:
  "excluded tcl_excludes c = (c = ''demos'' \<or> endswith c ''.lib'' \<or> c = ''tclConfig.sh'')"
proof -
  have "glob_match ''demos'' c = (c = ''demos'')"
    by (rule glob_match_literal) simp_all
  moreover have "glob_match ''tclConfig.sh'' c = (c = ''tclConfig.sh'')"
    by (rule glob_match_literal) simp_all
  moreover have "glob_match ''*.lib'' c = suffix ''.lib'' c"
    by (rule glob_match_star_literal) simp_all
  ultimately show ?thesis
    by (simp add: excluded_def tcl_excludes_def endswith_def)
qed

lemma excluded_tk:
  "excluded tk_excludes c = (c = ''demos'' \<or> endswith c ''.lib'' \<or> c = ''tkConfig.sh'')"
proof -
  have "glob_match ''demos'' c = (c = ''demos'')"
    by (rule glob_match_literal) simp_all
  moreover have "glob_match ''tkConfig.sh'' c = (c = ''tkConfig.sh'')"
    by (rule glob_match_literal) simp_all
  moreover have "glob_match ''*.lib'' c = suffix ''.lib'' c"
    by (rule glob_match_star_literal) simp_all
  ultimately show ?thesis
    by (simp add: excluded_def tk_excludes_def endswith_def)
qed

text \<open>
  Claim C8. The manifest built of the Tcl root holds, in the order of the walk, the entries
  under that root on whose path no name is \<^verbatim>\<open>demos\<close>, ends with \<^verbatim>\<open>.lib\<close> or is
  \<^verbatim>\<open>tclConfig.sh\<close>, and no other; the manifest built of the Tk root likewise, with
  \<^verbatim>\<open>tkConfig.sh\<close> for \<^verbatim>\<open>tclConfig.sh\<close>.
\<close>

theorem tree_exclusions:
  assumes "fs e tcl_root = Some (Dir tcl_entries)"
    and "fs e tk_root = Some (Dir tk_entries)"
  shows "Tree e tcl_root ''tcl'' tcl_excludes =
           map (mk_entry e tcl_root ''tcl'')
             (filter (\<lambda>ck. list_all (\<lambda>c. c \<noteq> ''demos'' \<and> \<not> endswith c ''.lib''
                                        \<and> c \<noteq> ''tclConfig.sh'') (fst ck))
                (walk [] (Dir tcl_entries)))
         \<and> Tree e tk_root ''tk'' tk_excludes =
           map (mk_entry e tk_root ''tk'')
             (filter (\<lambda>ck. list_all (\<lambda>c. c \<noteq> ''demos'' \<and> \<not> endswith c ''.lib''
                                        \<and> c \<noteq> ''tkConfig.sh'') (fst ck))
                (walk [] (Dir tk_entries)))"
proof -
  have "walk tcl_excludes (Dir tcl_entries) =
          filter (\<lambda>ck. list_all (\<lambda>c. c \<noteq> ''demos'' \<and> \<not> endswith c ''.lib''
                                     \<and> c \<noteq> ''tclConfig.sh'') (fst ck))
            (walk [] (Dir tcl_entries))"
    by (subst walk_filter(1)) (simp add: excluded_tcl list_ex_iff list_all_iff)
  moreover have "walk tk_excludes (Dir tk_entries) =
          filter (\<lambda>ck. list_all (\<lambda>c. c \<noteq> ''demos'' \<and> \<not> endswith c ''.lib''
                                     \<and> c \<noteq> ''tkConfig.sh'') (fst ck))
            (walk [] (Dir tk_entries))"
    by (subst walk_filter(1)) (simp add: excluded_tk list_ex_iff list_all_iff)
  ultimately show ?thesis
    using assms by (simp add: Tree_def)
qed

theorem tree_exclusions_witness:
  "fs linux_env ''/usr/lib/tcl8.6'' =
     Some (Dir [(''init.tcl'', File),
                (''demos'', Dir [(''hello.tcl'', File)]),
                (''tclConfig.sh'', File),
                (''tcl86.lib'', File),
                (''encoding'', Dir [(''ascii.enc'', File), (''demos'', File)])])
   \<and> fs linux_env ''/usr/lib/tk8.6'' =
     Some (Dir [(''tk.tcl'', File),
                (''tkConfig.sh'', File),
                (''tclConfig.sh'', File),
                (''demos'', Dir [(''widget'', File)])])
   \<and> Tree linux_env ''/usr/lib/tcl8.6'' ''tcl'' tcl_excludes =
       [(''tcl/init.tcl'', ''/usr/lib/tcl8.6/init.tcl'', RegularFile),
        (''tcl/encoding'', ''/usr/lib/tcl8.6/encoding'', DirectoryMarker),
        (''tcl/encoding/ascii.enc'', ''/usr/lib/tcl8.6/encoding/ascii.enc'', RegularFile)]
   \<and> Tree linux_env ''/usr/lib/tk8.6'' ''tk'' tk_excludes =
       [(''tk/tk.tcl'', ''/usr/lib/tk8.6/tk.tcl'', RegularFile),
        (''tk/tclConfig.sh'', ''/usr/lib/tk8.6/tclConfig.sh'', RegularFile)]"
proof -
  let ?tcl = "[(''init.tcl'', File),
               (''demos'', Dir [(''hello.tcl'', File)]),
               (''tclConfig.sh'', File),
               (''tcl86.lib'', File),
               (''encoding'', Dir [(''ascii.enc'', File), (''demos'', File)])]"
  let ?tk = "[(''tk.tcl'', File),
              (''tkConfig.sh'', File),
              (''tclConfig.sh'', File),
              (''demos'', Dir [(''widget'', File)])]"
  have h1: "fs linux_env ''/usr/lib/tcl8.6'' = Some (Dir ?tcl)"
    by code_simp
  have h2: "fs linux_env ''/usr/lib/tk8.6'' = Some (Dir ?tk)"
    by code_simp
  have r1: "map (mk_entry linux_env ''/usr/lib/tcl8.6'' ''tcl'')
             (filter (\<lambda>ck. list_all (\<lambda>c. c \<noteq> ''demos'' \<and> \<not> endswith c ''.lib''
                                        \<and> c \<noteq> ''tclConfig.sh'') (fst ck))
                (walk [] (Dir ?tcl))) =
       [(''tcl/init.tcl'', ''/usr/lib/tcl8.6/init.tcl'', RegularFile),
        (''tcl/encoding'', ''/usr/lib/tcl8.6/encoding'', DirectoryMarker),
        (''tcl/encoding/ascii.enc'', ''/usr/lib/tcl8.6/encoding/ascii.enc'', RegularFile)]"
    by code_simp
  have r2: "map (mk_entry linux_env ''/usr/lib/tk8.6'' ''tk'')
             (filter (\<lambda>ck. list_all (\<lambda>c. c \<noteq> ''demos'' \<and> \<not> endswith c ''.lib''
                                        \<and> c \<noteq> ''tkConfig.sh'') (fst ck))
                (walk [] (Dir ?tk))) =
       [(''tk/tk.tcl'', ''/usr/lib/tk8.6/tk.tcl'', RegularFile),
        (''tk/tclConfig.sh'', ''/usr/lib/tk8.6/tclConfig.sh'', RegularFile)]"
    by code_simp
  from tree_exclusions [OF h1 h2] h1 h2 r1 r2 show ?thesis
    by simp
qed

subsection \<open>The manifest assembler\<close>

text \<open>
  Claim C7. When both roots are found and are directories, the health check (on macOS) does
  not raise and the modules are collected, \<open>collect_tcl_tk_files\<close> returns the entries of
  the Tcl tree, then those of the Tk tree, then those of the modules tree, each in its own
  order.
\<close>

theorem collect_concatenation:
  assumes "find_tcl_tk e f = Inr (Some tcl_root, Some tk_root)"
    and "tcl_root \<noteq> []"
    and "isdir e tcl_root"
    and "isdir e tk_root"
    and "is_darwin e \<longrightarrow>
           fst (warn_if_activetcl_or_teapot_installed e tcl_root
                  (Tree e tcl_root ''tcl'' tcl_excludes)) = Inr ()"
    and "fst (collect_tcl_modules e tcl_root) = Inr modules"
  shows "fst (collect_tcl_tk_files e f) =
           Inr (Tree e tcl_root ''tcl'' tcl_excludes @ Tree e tk_root ''tk'' tk_excludes @ modules)"
proof -
  let ?tcltree = "Tree e tcl_root ''tcl'' tcl_excludes"
  let ?hc = "if is_darwin e then warn_if_activetcl_or_teapot_installed e tcl_root ?tcltree
             else (Inr (), ?tcltree, [])"
  obtain logged where hc: "?hc = (Inr (), ?tcltree, logged)"
  proof (cases "is_darwin e")
    case True
    with assms(5) warn_manifest_unchanged [of e tcl_root ?tcltree] that show ?thesis
      by (cases "warn_if_activetcl_or_teapot_installed e tcl_root ?tcltree") auto
  next
    case False
    with that show ?thesis by simp
  qed
  obtain logged' where m: "collect_tcl_modules e tcl_root = (Inr modules, logged')"
    using assms(6) by (cases "collect_tcl_modules e tcl_root") auto
  from hc m have "fst (assemble e tcl_root tk_root) =
      Inr (?tcltree @ Tree e tk_root ''tk'' tk_excludes @ modules)"
    by (simp add: assemble_def toc_add_def)
  with assms(1-4) show ?thesis
    by (simp add: collect_tcl_tk_files_def truthy_def)
qed

theorem collect_concatenation_witness:
  "find_tcl_tk mac_env ''_tkinter.so'' = Inr (Some ''/opt/tcl/lib/tcl8.6'', Some ''/opt/tcl/lib/tk8.6'')
   \<and> isdir mac_env ''/opt/tcl/lib/tcl8.6''
   \<and> isdir mac_env ''/opt/tcl/lib/tk8.6''
   \<and> is_darwin mac_env
   \<and> fst (warn_if_activetcl_or_teapot_installed mac_env ''/opt/tcl/lib/tcl8.6''
             (Tree mac_env ''/opt/tcl/lib/tcl8.6'' ''tcl'' tcl_excludes)) = Inr ()
   \<and> fst (collect_tcl_tk_files mac_env ''_tkinter.so'') =
       Inr ([(''tcl/init.tcl'', ''/opt/tcl/lib/tcl8.6/init.tcl'', RegularFile),
             (''tcl/encoding'', ''/opt/tcl/lib/tcl8.6/encoding'', DirectoryMarker),
             (''tcl/encoding/ascii.enc'', ''/opt/tcl/lib/tcl8.6/encoding/ascii.enc'', RegularFile)]
            @ [(''tk/tk.tcl'', ''/opt/tcl/lib/tk8.6/tk.tcl'', RegularFile),
               (''tk/tclConfig.sh'', ''/opt/tcl/lib/tk8.6/tclConfig.sh'', RegularFile)]
            @ [(''tcl8/8.6'', ''/opt/tcl/lib/tcl8.6/../tcl8/8.6'', DirectoryMarker),
               (''tcl8/8.6/http-2.9.0.tm'', ''/opt/tcl/lib/tcl8.6/../tcl8/8.6/http-2.9.0.tm'',
                RegularFile)])"
proof -
  let ?modules = "[(''tcl8/8.6'', ''/opt/tcl/lib/tcl8.6/../tcl8/8.6'', DirectoryMarker),
                   (''tcl8/8.6/http-2.9.0.tm'', ''/opt/tcl/lib/tcl8.6/../tcl8/8.6/http-2.9.0.tm'',
                    RegularFile)] :: toc"
  have h1: "find_tcl_tk mac_env ''_tkinter.so''
              = Inr (Some ''/opt/tcl/lib/tcl8.6'', Some ''/opt/tcl/lib/tk8.6'')"
    by code_simp
  have h2: "''/opt/tcl/lib/tcl8.6'' \<noteq> []"
    by simp
  have h3: "isdir mac_env ''/opt/tcl/lib/tcl8.6''"
    by code_simp
  have h4: "isdir mac_env ''/opt/tcl/lib/tk8.6''"
    by code_simp
  have d: "is_darwin mac_env"
    by code_simp
  have w: "fst (warn_if_activetcl_or_teapot_installed mac_env ''/opt/tcl/lib/tcl8.6''
                  (Tree mac_env ''/opt/tcl/lib/tcl8.6'' ''tcl'' tcl_excludes)) = Inr ()"
    by code_simp
  then have h5: "is_darwin mac_env \<longrightarrow>
      fst (warn_if_activetcl_or_teapot_installed mac_env ''/opt/tcl/lib/tcl8.6''
             (Tree mac_env ''/opt/tcl/lib/tcl8.6'' ''tcl'' tcl_excludes)) = Inr ()"
    by simp
  have h6: "fst (collect_tcl_modules mac_env ''/opt/tcl/lib/tcl8.6'') = Inr ?modules"
    by code_simp
  have t1: "Tree mac_env ''/opt/tcl/lib/tcl8.6'' ''tcl'' tcl_excludes =
      [(''tcl/init.tcl'', ''/opt/tcl/lib/tcl8.6/init.tcl'', RegularFile),
       (''tcl/encoding'', ''/opt/tcl/lib/tcl8.6/encoding'', DirectoryMarker),
       (''tcl/encoding/ascii.enc'', ''/opt/tcl/lib/tcl8.6/encoding/ascii.enc'', RegularFile)]"
    by code_simp
  have t2: "Tree mac_env ''/opt/tcl/lib/tk8.6'' ''tk'' tk_excludes =
      [(''tk/tk.tcl'', ''/opt/tcl/lib/tk8.6/tk.tcl'', RegularFile),
       (''tk/tclConfig.sh'', ''/opt/tcl/lib/tk8.6/tclConfig.sh'', RegularFile)]"
    by code_simp
  from collect_concatenation [OF h1 h2 h3 h4 h5 h6] h1 h3 h4 d w t1 t2 show ?thesis
    by simp
qed

text \<open>
  Claim C1. When \<open>find_tcl_tk\<close> returns and the Tcl root is \<^verbatim>\<open>None\<close>, or the Tcl root or
  the Tk root is not an existing directory, \<open>collect_tcl_tk_files\<close> returns the empty
  manifest, raises nothing and logs one record.
\<close>

theorem collect_empty_on_missing_root:
  assumes "find_tcl_tk e f = Inr (tcl_root, tk_root)"
    and "tcl_root = None \<or> \<not> existing_dir e tcl_root \<or> \<not> existing_dir e tk_root"
  shows "fst (collect_tcl_tk_files e f) = Inr []
         \<and> length (snd (collect_tcl_tk_files e f)) = 1"
proof -
  from find_tcl_tk_shape [OF assms(1)]
  consider "tcl_root = None" "tk_root = None"
    | x y where "tcl_root = Some x" "tk_root = Some y"
    by blast
  then show ?thesis
  proof cases
    case 1
    with assms(1) show ?thesis
      by (simp add: collect_tcl_tk_files_def truthy_def)
  next
    case 2
    with assms(2) have "\<not> isdir e x \<or> \<not> isdir e y"
      by (simp add: existing_dir_def)
    with 2 assms(1) show ?thesis
      by (auto simp: collect_tcl_tk_files_def truthy_def)
  qed
qed

theorem collect_empty_on_missing_root_witness:
  "find_tcl_tk linux_env_no_tk ''_tkinter.so''
     = Inr (Some ''/usr/lib/tcl8.6'', Some ''/usr/lib/tk8.6'')
   \<and> \<not> existing_dir linux_env_no_tk (Some ''/usr/lib/tk8.6'')
   \<and> fst (collect_tcl_tk_files linux_env_no_tk ''_tkinter.so'') = Inr []
   \<and> length (snd (collect_tcl_tk_files linux_env_no_tk ''_tkinter.so'')) = 1"
proof -
  have h1: "find_tcl_tk linux_env_no_tk ''_tkinter.so''
              = Inr (Some ''/usr/lib/tcl8.6'', Some ''/usr/lib/tk8.6'')"
    by code_simp
  have n: "\<not> existing_dir linux_env_no_tk (Some ''/usr/lib/tk8.6'')"
    by code_simp
  then have h2: "Some ''/usr/lib/tcl8.6'' = None
      \<or> \<not> existing_dir linux_env_no_tk (Some ''/usr/lib/tcl8.6'')
      \<or> \<not> existing_dir linux_env_no_tk (Some ''/usr/lib/tk8.6'')"
    by simp
  from collect_empty_on_missing_root [OF h1 h2] h1 n show ?thesis
    by simp
qed

text \<open>The other way to an empty manifest: on macOS, no image found, both roots \<^verbatim>\<open>None\<close>.\<close>

lemma collect_on_hidden_images:
  "find_tcl_tk mac_env_hidden ''_tkinter.so'' = Inr (None, None)
   \<and> collect_tcl_tk_files mac_env_hidden ''_tkinter.so'' = (Inr [], [(INFO, not_collecting_msg)])"
  by code_simp

end
